theory Spec2Isabelle
  imports Complex_Main "HOL-Library.Sublist"
begin

section \<open>Values of the program\<close>

text \<open>
  The program (\<^verbatim>\<open>src/service.ts\<close>) builds a graph of resource requests for an
  infrastructure engine. It computes nothing with numbers: it copies them, tests one of
  them for truthiness and serialises one of them. A \<^verbatim>\<open>number\<close> is a double: a
  finite one, carried as the rational it denotes (the two zeros are the one rational 0),
  \<^verbatim>\<open>NaN\<close>, or one of the two infinities.
\<close>

datatype number = Num rat | NaN | PosInfinity | NegInfinity

text \<open>
  The type token of a resource, and a reference to a resource object: its type and the
  logical name it was constructed with.
\<close>

datatype rtype =
    Component                  \<comment> \<open>the \<^verbatim>\<open>Service\<close> component itself\<close>
  | Ec2SecurityGroup           \<comment> \<open>\<^verbatim>\<open>aws.ec2.SecurityGroup\<close>\<close>
  | Ec2SecurityGroupRule       \<comment> \<open>\<^verbatim>\<open>aws.ec2.SecurityGroupRule\<close>\<close>
  | LbLoadBalancer             \<comment> \<open>\<^verbatim>\<open>aws.lb.LoadBalancer\<close>\<close>
  | LbTargetGroup              \<comment> \<open>\<^verbatim>\<open>aws.lb.TargetGroup\<close>\<close>
  | LbListener                 \<comment> \<open>\<^verbatim>\<open>aws.lb.Listener\<close>\<close>
  | Route53Record              \<comment> \<open>\<^verbatim>\<open>aws.route53.Record\<close>\<close>
  | AcmCertificate             \<comment> \<open>\<^verbatim>\<open>aws.acm.Certificate\<close>\<close>
  | AcmCertificateValidation   \<comment> \<open>\<^verbatim>\<open>aws.acm.CertificateValidation\<close>\<close>
  | EcsCluster                 \<comment> \<open>\<^verbatim>\<open>aws.ecs.Cluster\<close>\<close>
  | EcsTaskDefinition          \<comment> \<open>\<^verbatim>\<open>aws.ecs.TaskDefinition\<close>\<close>
  | EcsService                 \<comment> \<open>\<^verbatim>\<open>aws.ecs.Service\<close>\<close>
  | IamPolicy                  \<comment> \<open>\<^verbatim>\<open>aws.iam.Policy\<close>\<close>
  | IamRole                    \<comment> \<open>\<^verbatim>\<open>aws.iam.Role\<close>\<close>
  | AppautoscalingTarget       \<comment> \<open>\<^verbatim>\<open>aws.appautoscaling.Target\<close>\<close>
  | AppautoscalingPolicy       \<comment> \<open>\<^verbatim>\<open>aws.appautoscaling.Policy\<close>\<close>

type_synonym ref = "rtype \<times> string"

text \<open>
  A string-valued input of a resource: a plain string, or a value the engine resolves
  later (\<^verbatim>\<open>pulumi.Output\<close>). The code never inspects a deferred value; it
  passes it on or interpolates it.
\<close>

datatype sval =
    Lit string                 \<comment> \<open>a plain string\<close>
  | Output ref string          \<comment> \<open>an output property of a resource, \<^verbatim>\<open>alb.dnsName\<close>\<close>
  | External string            \<comment> \<open>a deferred value handed in by the caller, \<^verbatim>\<open>vpcId\<close>\<close>
  | GetZoneId string           \<comment> \<open>\<^verbatim>\<open>aws.route53.getZone({ name }).then(zone => zone.zoneId)\<close>\<close>
  | Interpolate "sval list"    \<comment> \<open>\<^verbatim>\<open>pulumi.interpolate\<close>\<close>

text \<open>
  What a string input resolves to once the engine knows every deferred value:
  \<open>outs\<close> gives the output properties, \<open>exts\<close> the caller's deferred values and
  \<open>zones\<close> the identifier of a hosted zone.
\<close>

fun resolve :: "(ref \<Rightarrow> string \<Rightarrow> string) \<Rightarrow> (string \<Rightarrow> string) \<Rightarrow> (string \<Rightarrow> string)
    \<Rightarrow> sval \<Rightarrow> string" where
  "resolve outs exts zones (Lit s) = s"
| "resolve outs exts zones (Output r a) = outs r a"
| "resolve outs exts zones (External x) = exts x"
| "resolve outs exts zones (GetZoneId z) = zones z"
| "resolve outs exts zones (Interpolate vs) = concat (map (resolve outs exts zones) vs)"

text \<open>
  The value handed to \<^verbatim>\<open>JSON.stringify\<close> (the code builds it from strings, numbers,
  arrays and object literals), the document the serialiser writes for it, and the text it
  returns, kept as that document. The serialiser writes a string, an array and an object
  as they are, a finite number as that number, and \<^verbatim>\<open>NaN\<close> and the infinities as
  \<^verbatim>\<open>null\<close>.
\<close>

datatype jsval =
    JSString string
  | JSNumber number
  | JSArray "jsval list"
  | JSObject "(string \<times> jsval) list"

datatype json =
    JNull
  | JString string
  | JNumber rat
  | JArray "json list"
  | JObject "(string \<times> json) list"

fun written_number :: "number \<Rightarrow> json" where
  "written_number (Num q) = JNumber q"
| "written_number NaN = JNull"
| "written_number PosInfinity = JNull"
| "written_number NegInfinity = JNull"

primrec written :: "jsval \<Rightarrow> json" where
  "written (JSString s) = JString s"
| "written (JSNumber n) = written_number n"
| "written (JSArray xs) = JArray (map written xs)"
| "written (JSObject kvs) = JObject (map (map_prod id written) kvs)"

datatype json_text = JSON_text json

definition JSON_stringify :: "jsval \<Rightarrow> json_text" where
  "JSON_stringify v = JSON_text (written v)"

type_synonym tags = "(string \<times> string) list option"

subsection \<open>Truthiness\<close>

text \<open>
  The code tests optional values with \<^verbatim>\<open>x ? a : b\<close>, \<^verbatim>\<open>if (x)\<close> and
  \<^verbatim>\<open>x || d\<close>. In JavaScript \<^verbatim>\<open>undefined\<close>, the empty string, the number
  zero and \<^verbatim>\<open>NaN\<close> are falsy; every other string and number, and every object,
  is truthy.
\<close>

fun truthy_string :: "string option \<Rightarrow> bool" where
  "truthy_string None = False"
| "truthy_string (Some s) = (s \<noteq> [])"

fun or_string :: "string option \<Rightarrow> string \<Rightarrow> string" where
  "or_string None d = d"
| "or_string (Some s) d = (if s \<noteq> [] then s else d)"

text \<open>\<^verbatim>\<open>if (x) { f(x) } else { d }\<close>, for a block that reads the tested string.\<close>

fun when_string :: "string option \<Rightarrow> (string \<Rightarrow> 'a) \<Rightarrow> 'a \<Rightarrow> 'a" where
  "when_string None f d = d"
| "when_string (Some s) f d = (if s \<noteq> [] then f s else d)"

fun or_number :: "number option \<Rightarrow> number \<Rightarrow> number" where
  "or_number None d = d"
| "or_number (Some n) d = (if n \<noteq> Num 0 \<and> n \<noteq> NaN then n else d)"

section \<open>The configuration types\<close>

text \<open>The types of \<^verbatim>\<open>types.ts\<close>. An optional field is an \<open>option\<close>.\<close>

record Subnet =
  resource_id :: sval          \<comment> \<open>\<^verbatim>\<open>subnet.resource.id\<close>\<close>

record AutoscalingConfig =
  as_min :: number
  as_max :: number
  as_cpuAvgThreshold :: "number option"

record CreateServiceArgs =
  sa_name :: string
  sa_image :: string
  sa_port :: number
  sa_cpu :: "string option"
  sa_memory :: "string option"
  sa_autoscaling :: "AutoscalingConfig option"
  sa_hostedZone :: "string option"
  sa_vpcId :: sval
  sa_region :: string
  sa_subnets :: "Subnet list"
  sa_tags :: tags

record CreateSecurityGroupArgs =
  sga_serviceName :: string
  sga_port :: number
  sga_vpcId :: sval
  sga_lbSecurityGroupId :: sval
  sga_tags :: tags

record CreateLoadBalancerArgs =
  lba_serviceName :: string
  lba_vpcId :: sval
  lba_subnets :: "Subnet list"
  lba_hostedZone :: "string option"
  lba_tags :: tags

record LoadBalancer =
  securityGroupId :: sval
  targetGroupArn :: sval
  dnsName :: "sval option"

section \<open>Resource requests\<close>

text \<open>
  The option bag of a resource. The code writes \<^verbatim>\<open>parent\<close> and
  \<^verbatim>\<open>dependsOn\<close>; every other key of the caller's bag is copied by the spread
  \<^verbatim>\<open>...opts\<close>. An absent \<^verbatim>\<open>dependsOn\<close> is the empty list.
\<close>

record options =
  parent :: "ref option"
  dependsOn :: "ref list"
  others :: "(string \<times> string) list"

definition no_options :: options where
  "no_options = \<lparr>parent = None, dependsOn = [], others = []\<rparr>"

text \<open>\<^verbatim>\<open>{ ...opts }\<close>: spreading \<^verbatim>\<open>undefined\<close> gives the empty bag.\<close>

fun spread :: "options option \<Rightarrow> options" where
  "spread None = no_options"
| "spread (Some b) = b"

text \<open>The property bags, one record per resource type, with the keys the code writes.\<close>

record SecurityGroupRuleInline =
  protocol :: string
  fromPort :: number
  toPort :: number
  securityGroups :: "sval list option"
  cidrBlocks :: "string list option"

record SecurityGroupArgs =
  sg_name :: string
  sg_vpcId :: sval
  sg_ingress :: "SecurityGroupRuleInline list"
  sg_egress :: "SecurityGroupRuleInline list option"
  sg_tags :: tags

record LoadBalancerArgs =
  lb_internal :: bool
  lb_securityGroups :: "sval list"
  lb_subnets :: "sval list"
  lb_tags :: tags

record TargetGroupArgs =
  tg_port :: number
  tg_protocol :: string
  tg_targetType :: string
  tg_vpcId :: sval
  tg_tags :: tags

record ListenerAction =
  action_type :: string
  action_targetGroupArn :: sval

record ListenerArgs =
  loadBalancerArn :: sval
  listener_port :: number
  listener_protocol :: string
  defaultActions :: "ListenerAction list"
  certificateArn :: "sval option"
  listener_tags :: tags

record RecordAlias =
  alias_name :: sval
  alias_zoneId :: sval
  evaluateTargetHealth :: bool

record RecordArgs =
  record_name :: sval
  record_type :: string
  record_zoneId :: sval
  aliases :: "RecordAlias list option"
  records :: "sval list option"
  ttl :: "number option"

record CertificateArgs =
  domainName :: string
  validationMethod :: string
  cert_tags :: tags

record CertificateValidationArgs =
  cv_certificateArn :: sval
  validationRecordFqdns :: "sval list"

record ClusterArgs =
  cluster_name :: string
  cluster_tags :: tags

record PolicyArgs =
  policy :: json_text
  policy_tags :: tags

record RoleArgs =
  assumeRolePolicy :: json_text
  managedPolicyArns :: "sval list"
  role_tags :: tags

record TaskDefinitionArgs =
  family :: string
  cpu :: string
  memory :: string
  networkMode :: string
  requiresCompatibilities :: "string list"
  executionRoleArn :: sval
  containerDefinitions :: json_text
  td_tags :: tags

record SecurityGroupRuleArgs =
  sgr_protocol :: string
  sgr_type :: string
  sgr_fromPort :: number
  sgr_toPort :: number
  sgr_securityGroupId :: sval
  sgr_sourceSecurityGroupId :: sval

record NetworkConfiguration =
  assignPublicIp :: bool
  nc_subnets :: "sval list"
  nc_securityGroups :: "sval list"

record ServiceLoadBalancer =
  slb_targetGroupArn :: sval
  containerName :: string
  containerPort :: number

record EcsServiceArgs =
  svc_cluster :: sval
  launchType :: string
  svc_taskDefinition :: sval
  networkConfiguration :: NetworkConfiguration
  waitForSteadyState :: bool
  loadBalancers :: "ServiceLoadBalancer list"
  svc_tags :: tags

record ScalingTargetArgs =
  maxCapacity :: number
  minCapacity :: number
  st_resourceId :: sval
  st_scalableDimension :: string
  st_serviceNamespace :: string

record PredefinedMetricSpecification =
  predefinedMetricType :: string

record TargetTrackingConfiguration =
  targetValue :: number
  predefinedMetricSpecification :: PredefinedMetricSpecification

record ScalingPolicyArgs =
  sp_resourceId :: sval
  policyType :: string
  sp_scalableDimension :: string
  sp_serviceNamespace :: string
  targetTrackingScalingPolicyConfiguration :: TargetTrackingConfiguration

datatype resource_args =
    ComponentArgs
  | SecurityGroup SecurityGroupArgs
  | SecurityGroupRule SecurityGroupRuleArgs
  | LoadBalancerRes LoadBalancerArgs
  | TargetGroup TargetGroupArgs
  | Listener ListenerArgs
  | Record RecordArgs
  | Certificate CertificateArgs
  | CertificateValidation CertificateValidationArgs
  | Cluster ClusterArgs
  | TaskDefinition TaskDefinitionArgs
  | EcsServiceRes EcsServiceArgs
  | Policy PolicyArgs
  | Role RoleArgs
  | ScalingTarget ScalingTargetArgs
  | ScalingPolicy ScalingPolicyArgs

text \<open>
  One call \<^verbatim>\<open>new T(name, args, opts)\<close>: the logical name, the property bag and the
  option bag.
\<close>

record resource =
  logical_name :: string
  args :: resource_args
  opts :: options

fun rtype_of :: "resource_args \<Rightarrow> rtype" where
  "rtype_of ComponentArgs = Component"
| "rtype_of (SecurityGroup _) = Ec2SecurityGroup"
| "rtype_of (SecurityGroupRule _) = Ec2SecurityGroupRule"
| "rtype_of (LoadBalancerRes _) = LbLoadBalancer"
| "rtype_of (TargetGroup _) = LbTargetGroup"
| "rtype_of (Listener _) = LbListener"
| "rtype_of (Record _) = Route53Record"
| "rtype_of (Certificate _) = AcmCertificate"
| "rtype_of (CertificateValidation _) = AcmCertificateValidation"
| "rtype_of (Cluster _) = EcsCluster"
| "rtype_of (TaskDefinition _) = EcsTaskDefinition"
| "rtype_of (EcsServiceRes _) = EcsService"
| "rtype_of (Policy _) = IamPolicy"
| "rtype_of (Role _) = IamRole"
| "rtype_of (ScalingTarget _) = AppautoscalingTarget"
| "rtype_of (ScalingPolicy _) = AppautoscalingPolicy"

definition ref_of :: "resource \<Rightarrow> ref" where
  "ref_of r = (rtype_of (args r), logical_name r)"

definition of_type :: "rtype \<Rightarrow> resource list \<Rightarrow> resource list" where
  "of_type t rs = filter (\<lambda>r. rtype_of (args r) = t) rs"

section \<open>The program\<close>

text \<open>
  The module reads the deployment identifier once (\<^verbatim>\<open>pulumi.getStack()\<close>) and asks for
  the caller's identity once; the account id is known when the engine computes the
  policy text. Both are passed to the builders as a record.
\<close>

record ambient =
  stack :: string
  accountId :: string

definition stackName :: "ambient \<Rightarrow> string \<Rightarrow> string" where
  "stackName ctx name = name @ ''-'' @ stack ctx"

text \<open>
  What a constructor can throw. The resource constructor of the engine's SDK, which every
  \<^verbatim>\<open>new T(name, ...)\<close> and \<^verbatim>\<open>super("Service", name)\<close> runs first, throws a
  \<^verbatim>\<open>ResourceError\<close> when the logical name is falsy, before it requests anything.
\<close>

datatype error = ResourceError string | ValidationError string

text \<open>\<^verbatim>\<open>validateServiceArgs\<close>: the body is a comment; it returns without throwing.\<close>

definition validateServiceArgs :: "CreateServiceArgs \<Rightarrow> error + unit" where
  "validateServiceArgs a = Inr ()"

text \<open>
  \<^verbatim>\<open>createSecurityGroup\<close>. \<open>this_name\<close> is the field \<^verbatim>\<open>this.name\<close>, which the
  constructor sets before it calls the builders.
\<close>

definition createSecurityGroup ::
    "ambient \<Rightarrow> string \<Rightarrow> CreateSecurityGroupArgs \<Rightarrow> options option \<Rightarrow> resource" where
  "createSecurityGroup ctx this_name a os =
     \<lparr>logical_name = this_name @ ''-security-group'',
      args = SecurityGroup
        \<lparr>sg_name = ''ecs-'' @ stackName ctx (sga_serviceName a),
         sg_vpcId = sga_vpcId a,
         sg_ingress =
           [\<lparr>protocol = ''tcp'', fromPort = sga_port a, toPort = sga_port a,
             securityGroups = Some [sga_lbSecurityGroupId a], cidrBlocks = None\<rparr>],
         sg_egress = Some
           [\<lparr>protocol = ''all'', fromPort = Num 0, toPort = Num 0,
             securityGroups = None, cidrBlocks = Some [''0.0.0.0/0'']\<rparr>],
         sg_tags = sga_tags a\<rparr>,
      opts = spread os\<rparr>"

text \<open>
  \<^verbatim>\<open>createLoadBalancer\<close>: the result record and the resources in the order of their
  construction. The block under \<^verbatim>\<open>if (hostedZone)\<close> sets
  \<^verbatim>\<open>albListenerConfig.certificateArn\<close> and pushes onto
  \<^verbatim>\<open>albListenerDependencies\<close>; here it returns the updated pair with the four
  resources it constructs.
\<close>

definition createLoadBalancer ::
    "ambient \<Rightarrow> string \<Rightarrow> CreateLoadBalancerArgs \<Rightarrow> options option
      \<Rightarrow> LoadBalancer \<times> resource list" where
  "createLoadBalancer ctx this_name a os =
    (let serviceName = lba_serviceName a;
         vpcId = lba_vpcId a;
         subnets = lba_subnets a;
         hostedZone = lba_hostedZone a;
         tags = lba_tags a;
         exposedPort = (if truthy_string hostedZone then Num 443 else Num 80);
         albSecurityGroup =
           \<lparr>logical_name = this_name @ ''-alb-security-group'',
            args = SecurityGroup
              \<lparr>sg_name = ''alb-'' @ stackName ctx serviceName,
               sg_vpcId = vpcId,
               sg_ingress =
                 [\<lparr>protocol = ''tcp'', fromPort = exposedPort, toPort = exposedPort,
                   securityGroups = None, cidrBlocks = Some [''0.0.0.0/0'']\<rparr>],
               sg_egress = None,
               sg_tags = tags\<rparr>,
            opts = spread os\<rparr>;
         alb =
           \<lparr>logical_name = this_name @ ''-app-lb'',
            args = LoadBalancerRes
              \<lparr>lb_internal = False,
               lb_securityGroups = [Output (ref_of albSecurityGroup) ''id''],
               lb_subnets = map resource_id subnets,
               lb_tags = tags\<rparr>,
            opts = spread os\<rparr>;
         albTargetGroup =
           \<lparr>logical_name = this_name @ ''-lb-target-group'',
            args = TargetGroup
              \<lparr>tg_port = Num 80, tg_protocol = ''HTTP'', tg_targetType = ''ip'',
               tg_vpcId = vpcId, tg_tags = tags\<rparr>,
            opts = spread os\<rparr>;
         albListenerConfig =
           \<lparr>loadBalancerArn = Output (ref_of alb) ''arn'',
            listener_port = exposedPort,
            listener_protocol = (if truthy_string hostedZone then ''HTTPS'' else ''HTTP''),
            defaultActions =
              [\<lparr>action_type = ''forward'',
                action_targetGroupArn = Output (ref_of albTargetGroup) ''arn''\<rparr>],
            certificateArn = None,
            listener_tags = tags\<rparr>;
         albListenerDependencies = [ref_of albTargetGroup];
         (tls, albListenerConfig', albListenerDependencies') =
           when_string hostedZone
             (\<lambda>hostedZone.
               let serviceDomain = stackName ctx serviceName @ ''.'' @ hostedZone;
                   zoneId = GetZoneId hostedZone;
                   dnsRecord =
                     \<lparr>logical_name = this_name @ ''-dns-record'',
                      args = Record
                        \<lparr>record_name = Lit serviceDomain,
                         record_type = ''A'',
                         record_zoneId = zoneId,
                         aliases = Some
                           [\<lparr>alias_name = Output (ref_of alb) ''dnsName'',
                             alias_zoneId = Output (ref_of alb) ''zoneId'',
                             evaluateTargetHealth = True\<rparr>],
                         records = None,
                         ttl = None\<rparr>,
                      opts = spread os\<rparr>;
                   cert =
                     \<lparr>logical_name = this_name @ ''-certificate'',
                      args = Certificate
                        \<lparr>domainName = serviceDomain, validationMethod = ''DNS'',
                         cert_tags = tags\<rparr>,
                      opts = spread os\<rparr>;
                   validationDNS =
                     \<lparr>logical_name = this_name @ ''-certificate-dns-validation'',
                      args = Record
                        \<lparr>record_name =
                           Output (ref_of cert) ''domainValidationOptions[0].resourceRecordName'',
                         record_type = ''CNAME'',
                         record_zoneId = zoneId,
                         aliases = None,
                         records = Some
                           [Output (ref_of cert) ''domainValidationOptions[0].resourceRecordValue''],
                         ttl = Some (Num 300)\<rparr>,
                      opts = spread os\<rparr>;
                   certificateValidation =
                     \<lparr>logical_name = this_name @ ''-certificate-validation'',
                      args = CertificateValidation
                        \<lparr>cv_certificateArn = Output (ref_of cert) ''arn'',
                         validationRecordFqdns =
                           [Output (ref_of cert) ''domainValidationOptions[0].resourceRecordName'']\<rparr>,
                      opts = (spread os)\<lparr>dependsOn := [ref_of validationDNS]\<rparr>\<rparr>
               in ([dnsRecord, cert, validationDNS, certificateValidation],
                   albListenerConfig\<lparr>certificateArn := Some (Output (ref_of cert) ''arn'')\<rparr>,
                   albListenerDependencies @ [ref_of certificateValidation]))
             ([], albListenerConfig, albListenerDependencies);
         listener =
           \<lparr>logical_name = ''listener'',
            args = Listener albListenerConfig',
            opts = (spread os)\<lparr>dependsOn := albListenerDependencies'\<rparr>\<rparr>
     in (\<lparr>securityGroupId = Output (ref_of albSecurityGroup) ''id'',
          targetGroupArn = Output (ref_of albTargetGroup) ''arn'',
          dnsName = Some (Output (ref_of alb) ''dnsName'')\<rparr>,
         [albSecurityGroup, alb, albTargetGroup] @ tls @ [listener]))"

text \<open>What a \<^verbatim>\<open>Service\<close> object is after construction, with the requests it issued.\<close>

record service_instance =
  name_field :: string         \<comment> \<open>\<^verbatim>\<open>this.name\<close>\<close>
  url :: sval
  registered :: "resource list"

text \<open>
  The constructor. \<^verbatim>\<open>super("Service", name)\<close> comes first: it throws for the empty
  name and otherwise registers the component with no option bag. Every child gets
  \<^verbatim>\<open>{ ...opts, parent: this }\<close>. The logical name of a child is a template with a
  fixed non-empty part, so no child's constructor throws for its name.
\<close>

definition Service ::
    "ambient \<Rightarrow> string \<Rightarrow> CreateServiceArgs \<Rightarrow> options option \<Rightarrow> error + service_instance" where
  "Service ctx name a os =
    (if name = [] then Inl (ResourceError ''Missing resource name argument (for URN creation)'')
     else
    (case validateServiceArgs a of
       Inl e \<Rightarrow> Inl e
     | Inr _ \<Rightarrow>
      (let component = \<lparr>logical_name = name, args = ComponentArgs, opts = no_options\<rparr>;
           serviceName = sa_name a;
           port = sa_port a;
           region = sa_region a;
           hostedZone = sa_hostedZone a;
           vpcId = sa_vpcId a;
           subnets = sa_subnets a;
           tags = sa_tags a;
           child = Some ((spread os)\<lparr>parent := Some (ref_of component)\<rparr>);
           cluster =
             \<lparr>logical_name = name @ ''-cluster'',
              args = Cluster \<lparr>cluster_name = stackName ctx serviceName, cluster_tags = tags\<rparr>,
              opts = spread child\<rparr>;
           (lb, lbResources) =
             createLoadBalancer ctx name
               \<lparr>lba_serviceName = serviceName, lba_vpcId = vpcId, lba_subnets = subnets,
                lba_hostedZone = hostedZone, lba_tags = tags\<rparr>
               child;
           lbSecurityGroupId = securityGroupId lb;
           lbTargetGroupArn = targetGroupArn lb;
           securityGroup =
             createSecurityGroup ctx name
               \<lparr>sga_serviceName = stackName ctx serviceName, sga_port = port, sga_vpcId = vpcId,
                sga_lbSecurityGroupId = lbSecurityGroupId, sga_tags = tags\<rparr>
               child;
           taskExecPolicy =
             \<lparr>logical_name = name @ ''-task-exec-policy'',
              args = Policy
                \<lparr>policy = JSON_stringify (JSObject
                   [(''Statement'', JSArray
                      [JSObject
                        [(''Action'', JSArray
                            [JSString ''logs:CreateLogGroup'', JSString ''logs:CreateLogStream'']),
                         (''Resource'', JSArray
                            [JSString (''arn:aws:logs:'' @ region @ '':'' @ accountId ctx
                               @ '':log-group:awslogs-'' @ stackName ctx serviceName),
                             JSString (''arn:aws:logs:'' @ region @ '':'' @ accountId ctx
                               @ '':log-group:awslogs-'' @ stackName ctx serviceName
                               @ '':log-stream:*'')]),
                         (''Effect'', JSString ''Allow'')]]),
                    (''Version'', JSString ''2012-10-17'')]),
                 policy_tags = tags\<rparr>,
              opts = spread child\<rparr>;
           role =
             \<lparr>logical_name = name @ ''-task-exec-role'',
              args = Role
                \<lparr>assumeRolePolicy = JSON_stringify (JSObject
                   [(''Statement'', JSArray
                      [JSObject
                        [(''Action'', JSArray [JSString ''sts:AssumeRole'']),
                         (''Principal'', JSObject
                            [(''Service'', JSString ''ecs-tasks.amazonaws.com'')]),
                         (''Effect'', JSString ''Allow'')]]),
                    (''Version'', JSString ''2012-10-17'')]),
                 managedPolicyArns = [Output (ref_of taskExecPolicy) ''arn''],
                 role_tags = tags\<rparr>,
              opts = spread child\<rparr>;
           taskDefinition =
             \<lparr>logical_name = name @ ''-task-definitions'',
              args = TaskDefinition
                \<lparr>family = ''fargate-task-definition'',
                 cpu = or_string (sa_cpu a) ''256'',
                 memory = or_string (sa_memory a) ''512'',
                 networkMode = ''awsvpc'',
                 requiresCompatibilities = [''FARGATE''],
                 executionRoleArn = Output (ref_of role) ''arn'',
                 containerDefinitions = JSON_stringify (JSArray
                   [JSObject
                     [(''name'', JSString (stackName ctx serviceName)),
                      (''image'', JSString (sa_image a)),
                      (''portMappings'', JSArray
                         [JSObject
                           [(''containerPort'', JSNumber port),
                            (''hostPort'', JSNumber port),
                            (''protocol'', JSString ''tcp'')]]),
                      (''logConfiguration'', JSObject
                         [(''logDriver'', JSString ''awslogs''),
                          (''options'', JSObject
                             [(''awslogs-create-group'', JSString ''true''),
                              (''awslogs-group'', JSString (''awslogs-'' @ stackName ctx serviceName)),
                              (''awslogs-region'', JSString region),
                              (''awslogs-stream-prefix'',
                                 JSString (''awslogs-'' @ stackName ctx serviceName
                                   @ ''-'' @ serviceName))])])]]),
                 td_tags = tags\<rparr>,
              opts = spread child\<rparr>;
           albEcsEgress =
             \<lparr>logical_name = name @ ''-alb-ecs-egress'',
              args = SecurityGroupRule
                \<lparr>sgr_protocol = ''tcp'', sgr_type = ''egress'',
                 sgr_fromPort = port, sgr_toPort = port,
                 sgr_securityGroupId = lbSecurityGroupId,
                 sgr_sourceSecurityGroupId = Output (ref_of securityGroup) ''id''\<rparr>,
              opts = spread child\<rparr>;
           service =
             \<lparr>logical_name = name @ ''-app-service'',
              args = EcsServiceRes
                \<lparr>svc_cluster = Output (ref_of cluster) ''id'',
                 launchType = ''FARGATE'',
                 svc_taskDefinition = Output (ref_of taskDefinition) ''arn'',
                 networkConfiguration =
                   \<lparr>assignPublicIp = True,
                    nc_subnets = map resource_id subnets,
                    nc_securityGroups = [Output (ref_of securityGroup) ''id'']\<rparr>,
                 waitForSteadyState = False,
                 loadBalancers =
                   [\<lparr>slb_targetGroupArn = lbTargetGroupArn,
                     containerName = stackName ctx serviceName,
                     containerPort = port\<rparr>],
                 svc_tags = tags\<rparr>,
              opts = spread child\<rparr>;
           resourceId =
             Interpolate [Lit ''service/'', Output (ref_of cluster) ''name'', Lit ''/'',
               Output (ref_of service) ''name''];
           scaling =
             (case sa_autoscaling a of
                None \<Rightarrow> []
              | Some autoscaling \<Rightarrow>
                 [\<lparr>logical_name = name @ ''-scaling-target'',
                   args = ScalingTarget
                     \<lparr>maxCapacity = as_max autoscaling,
                      minCapacity = as_min autoscaling,
                      st_resourceId = resourceId,
                      st_scalableDimension = ''ecs:service:DesiredCount'',
                      st_serviceNamespace = ''ecs''\<rparr>,
                   opts = spread child\<rparr>,
                  \<lparr>logical_name = name @ ''-scaling-policy'',
                   args = ScalingPolicy
                     \<lparr>sp_resourceId = resourceId,
                      policyType = ''TargetTrackingScaling'',
                      sp_scalableDimension = ''ecs:service:DesiredCount'',
                      sp_serviceNamespace = ''ecs'',
                      targetTrackingScalingPolicyConfiguration =
                        \<lparr>targetValue = or_number (as_cpuAvgThreshold autoscaling) (Num 75),
                         predefinedMetricSpecification =
                           \<lparr>predefinedMetricType = ''ECSServiceAverageCPUUtilization''\<rparr>\<rparr>\<rparr>,
                   opts = spread child\<rparr>]);
           url =
             when_string hostedZone
               (\<lambda>hostedZone. Lit (''https://'' @ stackName ctx serviceName @ ''.'' @ hostedZone))
               (Interpolate
                 [Lit ''http://'', (case dnsName lb of Some d \<Rightarrow> d | None \<Rightarrow> Lit ''undefined'')])
       in Inr
           \<lparr>name_field = name,
            url = url,
            registered =
              [component, cluster] @ lbResources
                @ [securityGroup, taskExecPolicy, role, taskDefinition, albEcsEgress, service]
                @ scaling\<rparr>)))"

section \<open>Reading a list of requests\<close>

text \<open>
  The property bag of a request of one type, and the bags of all requests of that type in
  a list, in the order of construction.
\<close>

fun listener_cfg :: "resource_args \<Rightarrow> ListenerArgs option" where
  "listener_cfg (Listener c) = Some c"
| "listener_cfg _ = None"

fun certificate_cfg :: "resource_args \<Rightarrow> CertificateArgs option" where
  "certificate_cfg (Certificate c) = Some c"
| "certificate_cfg _ = None"

fun security_group_cfg :: "resource_args \<Rightarrow> SecurityGroupArgs option" where
  "security_group_cfg (SecurityGroup c) = Some c"
| "security_group_cfg _ = None"

fun task_definition_cfg :: "resource_args \<Rightarrow> TaskDefinitionArgs option" where
  "task_definition_cfg (TaskDefinition c) = Some c"
| "task_definition_cfg _ = None"

fun scaling_target_cfg :: "resource_args \<Rightarrow> ScalingTargetArgs option" where
  "scaling_target_cfg (ScalingTarget c) = Some c"
| "scaling_target_cfg _ = None"

fun scaling_policy_cfg :: "resource_args \<Rightarrow> ScalingPolicyArgs option" where
  "scaling_policy_cfg (ScalingPolicy c) = Some c"
| "scaling_policy_cfg _ = None"

definition pick :: "(resource_args \<Rightarrow> 'a option) \<Rightarrow> resource list \<Rightarrow> 'a list" where
  "pick f rs = List.map_filter (\<lambda>r. f (args r)) rs"

text \<open>The elements of a serialised array, and a member of an object.\<close>

fun elements :: "json_text \<Rightarrow> json list" where
  "elements (JSON_text (JArray xs)) = xs"
| "elements _ = []"

fun member_of :: "string \<Rightarrow> json \<Rightarrow> json option" where
  "member_of k (JObject kvs) = map_of kvs k"
| "member_of k _ = None"

text \<open>
  The running example: the configuration of the README and of the spec's scenarios,
  deployed as stack \<^verbatim>\<open>dev\<close>.
\<close>

definition dev :: ambient where
  "dev = \<lparr>stack = ''dev'', accountId = ''123456789012''\<rparr>"

definition nginx :: CreateServiceArgs where
  "nginx =
     \<lparr>sa_name = ''nginx'', sa_image = ''nginx:latest'', sa_port = Num 80,
      sa_cpu = None, sa_memory = None, sa_autoscaling = None,
      sa_hostedZone = None, sa_vpcId = External ''vpcId'', sa_region = ''us-east-1'',
      sa_subnets = [\<lparr>resource_id = External ''subnet-a''\<rparr>, \<lparr>resource_id = External ''subnet-b''\<rparr>],
      sa_tags = None\<rparr>"

definition nginx_lb :: CreateLoadBalancerArgs where
  "nginx_lb =
     \<lparr>lba_serviceName = ''nginx'', lba_vpcId = External ''vpcId'',
      lba_subnets = [\<lparr>resource_id = External ''subnet-a''\<rparr>, \<lparr>resource_id = External ''subnet-b''\<rparr>],
      lba_hostedZone = None, lba_tags = None\<rparr>"

text \<open>The object a constructor call returns, when it returns one.\<close>

fun instance_of :: "error + service_instance \<Rightarrow> service_instance option" where
  "instance_of (Inr i) = Some i"
| "instance_of (Inl _) = None"

text \<open>The requests of a constructor call; none when it throws.\<close>

fun requests :: "error + service_instance \<Rightarrow> resource list" where
  "requests (Inr i) = registered i"
| "requests (Inl _) = []"

section \<open>The load-balancer subgraph\<close>

lemmas lb_eval =
  createLoadBalancer_def Let_def of_type_def ref_of_def pick_def List.map_filter_simps
  stackName_def

text \<open>
  C1, as amended. For every configuration whose \<^verbatim>\<open>hostedZone\<close> is a non-empty string,
  \<^verbatim>\<open>createLoadBalancer\<close> constructs exactly one listener, named \<^verbatim>\<open>listener\<close>, with
  port 443 and protocol HTTPS; exactly one certificate, for the domain
  \<^verbatim>\<open>stackName(serviceName).hostedZone\<close>; and the listener's \<^verbatim>\<open>dependsOn\<close> list is
  the target group followed by the certificate validation, both of which are among the
  constructed resources.
\<close>

theorem createLoadBalancer_hostedZone_nonempty:
  assumes "lba_hostedZone a = Some z" and "z \<noteq> []"
  shows "map logical_name (of_type LbListener (snd (createLoadBalancer ctx n a os))) = [''listener'']
    \<and> map listener_port (pick listener_cfg (snd (createLoadBalancer ctx n a os))) = [Num 443]
    \<and> map listener_protocol (pick listener_cfg (snd (createLoadBalancer ctx n a os))) = [''HTTPS'']
    \<and> map domainName (pick certificate_cfg (snd (createLoadBalancer ctx n a os)))
        = [stackName ctx (lba_serviceName a) @ ''.'' @ z]
    \<and> map (dependsOn \<circ> opts) (of_type LbListener (snd (createLoadBalancer ctx n a os)))
        = [[(LbTargetGroup, n @ ''-lb-target-group''),
            (AcmCertificateValidation, n @ ''-certificate-validation'')]]
    \<and> map ref_of (of_type LbTargetGroup (snd (createLoadBalancer ctx n a os)))
        = [(LbTargetGroup, n @ ''-lb-target-group'')]
    \<and> map ref_of (of_type AcmCertificateValidation (snd (createLoadBalancer ctx n a os)))
        = [(AcmCertificateValidation, n @ ''-certificate-validation'')]"
  using assms by (simp add: lb_eval)

theorem createLoadBalancer_hostedZone_nonempty_witness:
  "lba_hostedZone (nginx_lb\<lparr>lba_hostedZone := Some ''labs.example.com''\<rparr>)
      = Some ''labs.example.com''
    \<and> ''labs.example.com'' \<noteq> []
    \<and> map listener_port (pick listener_cfg (snd (createLoadBalancer dev ''service''
          (nginx_lb\<lparr>lba_hostedZone := Some ''labs.example.com''\<rparr>) None))) = [Num 443]
    \<and> map listener_protocol (pick listener_cfg (snd (createLoadBalancer dev ''service''
          (nginx_lb\<lparr>lba_hostedZone := Some ''labs.example.com''\<rparr>) None))) = [''HTTPS'']
    \<and> map domainName (pick certificate_cfg (snd (createLoadBalancer dev ''service''
          (nginx_lb\<lparr>lba_hostedZone := Some ''labs.example.com''\<rparr>) None)))
        = [''nginx-dev.labs.example.com'']
    \<and> map (dependsOn \<circ> opts) (of_type LbListener (snd (createLoadBalancer dev ''service''
          (nginx_lb\<lparr>lba_hostedZone := Some ''labs.example.com''\<rparr>) None)))
        = [[(LbTargetGroup, ''service-lb-target-group''),
            (AcmCertificateValidation, ''service-certificate-validation'')]]"
  using createLoadBalancer_hostedZone_nonempty
    [of "nginx_lb\<lparr>lba_hostedZone := Some ''labs.example.com''\<rparr>" "''labs.example.com''"
        dev "''service''" None]
  by (simp add: nginx_lb_def dev_def stackName_def)

text \<open>
  C1 as the spec states it fails where \<^verbatim>\<open>hostedZone\<close> is set to the empty string: the
  tests \<^verbatim>\<open>hostedZone ? ... : ...\<close> and \<^verbatim>\<open>if (hostedZone)\<close> take the empty
  string for false, so the listener is on port 80 with protocol HTTP, no certificate is
  constructed and the listener depends on the target group alone.
\<close>

theorem createLoadBalancer_hostedZone_empty_counterexample:
  "lba_hostedZone (nginx_lb\<lparr>lba_hostedZone := Some []\<rparr>) = Some []
    \<and> map listener_port (pick listener_cfg (snd (createLoadBalancer dev ''service''
          (nginx_lb\<lparr>lba_hostedZone := Some []\<rparr>) None))) = [Num 80]
    \<and> map listener_protocol (pick listener_cfg (snd (createLoadBalancer dev ''service''
          (nginx_lb\<lparr>lba_hostedZone := Some []\<rparr>) None))) = [''HTTP'']
    \<and> pick certificate_cfg (snd (createLoadBalancer dev ''service''
          (nginx_lb\<lparr>lba_hostedZone := Some []\<rparr>) None)) = []
    \<and> map (dependsOn \<circ> opts) (of_type LbListener (snd (createLoadBalancer dev ''service''
          (nginx_lb\<lparr>lba_hostedZone := Some []\<rparr>) None)))
        = [[(LbTargetGroup, ''service-lb-target-group'')]]"
  by (simp add: lb_eval nginx_lb_def dev_def)

text \<open>
  C2. For every configuration whose \<^verbatim>\<open>hostedZone\<close> is unset, \<^verbatim>\<open>createLoadBalancer\<close>
  constructs exactly one listener, with port 80 and protocol HTTP; no certificate, no DNS
  record and no certificate validation; and the listener's \<^verbatim>\<open>dependsOn\<close> list holds
  the target group only.
\<close>

theorem createLoadBalancer_hostedZone_unset:
  assumes "lba_hostedZone a = None"
  shows "map logical_name (of_type LbListener (snd (createLoadBalancer ctx n a os))) = [''listener'']
    \<and> map listener_port (pick listener_cfg (snd (createLoadBalancer ctx n a os))) = [Num 80]
    \<and> map listener_protocol (pick listener_cfg (snd (createLoadBalancer ctx n a os))) = [''HTTP'']
    \<and> of_type AcmCertificate (snd (createLoadBalancer ctx n a os)) = []
    \<and> of_type Route53Record (snd (createLoadBalancer ctx n a os)) = []
    \<and> of_type AcmCertificateValidation (snd (createLoadBalancer ctx n a os)) = []
    \<and> map (dependsOn \<circ> opts) (of_type LbListener (snd (createLoadBalancer ctx n a os)))
        = [[(LbTargetGroup, n @ ''-lb-target-group'')]]
    \<and> map ref_of (of_type LbTargetGroup (snd (createLoadBalancer ctx n a os)))
        = [(LbTargetGroup, n @ ''-lb-target-group'')]"
  using assms by (simp add: lb_eval)

theorem createLoadBalancer_hostedZone_unset_witness:
  "lba_hostedZone nginx_lb = None
    \<and> map listener_port (pick listener_cfg (snd (createLoadBalancer dev ''service'' nginx_lb None)))
        = [Num 80]
    \<and> map listener_protocol (pick listener_cfg (snd (createLoadBalancer dev ''service'' nginx_lb None)))
        = [''HTTP'']
    \<and> of_type AcmCertificate (snd (createLoadBalancer dev ''service'' nginx_lb None)) = []
    \<and> of_type Route53Record (snd (createLoadBalancer dev ''service'' nginx_lb None)) = []
    \<and> of_type AcmCertificateValidation (snd (createLoadBalancer dev ''service'' nginx_lb None)) = []
    \<and> map (dependsOn \<circ> opts) (of_type LbListener (snd (createLoadBalancer dev ''service'' nginx_lb None)))
        = [[(LbTargetGroup, ''service-lb-target-group'')]]"
  using createLoadBalancer_hostedZone_unset [of nginx_lb dev "''service''" None]
  by (simp add: nginx_lb_def)

text \<open>
  The two builders construct resources under logical names that are never empty, whatever
  \<^verbatim>\<open>this.name\<close> is, so no resource constructor they run throws for its name.
\<close>

lemma createLoadBalancer_names_nonempty:
  "\<forall>r \<in> set (snd (createLoadBalancer ctx n a os)). logical_name r \<noteq> []"
  by (cases "lba_hostedZone a") (simp_all add: createLoadBalancer_def Let_def)

lemma createSecurityGroup_name_nonempty:
  "logical_name (createSecurityGroup ctx n a os) \<noteq> []"
  by (simp add: createSecurityGroup_def)

section \<open>The constructor\<close>

lemmas svc_eval =
  Service_def validateServiceArgs_def createSecurityGroup_def JSON_stringify_def lb_eval

lemma written_number_cases:
  "written_number n =
     (case n of Num q \<Rightarrow> JNumber q | NaN \<Rightarrow> JNull | PosInfinity \<Rightarrow> JNull | NegInfinity \<Rightarrow> JNull)"
  by (cases n) simp_all

text \<open>
  The constructor throws for the empty component name, before any request; for every
  other name it returns, and every request it issued has a non-empty logical name.
\<close>

lemma Service_empty_name:
  "Service ctx [] a os = Inl (ResourceError ''Missing resource name argument (for URN creation)'')"
  by (simp add: Service_def)

lemma Service_names_nonempty:
  assumes "name \<noteq> []"
  shows "\<exists>inst. Service ctx name a os = Inr inst
    \<and> (\<forall>r \<in> set (registered inst). logical_name r \<noteq> [])"
  using assms
  by (cases "sa_hostedZone a"; cases "sa_autoscaling a") (simp_all add: svc_eval)

text \<open>
  C3, as amended. For every configuration and every non-empty component name the
  constructor returns, and the \<^verbatim>\<open>url\<close> of the object is the plain string
  \<^verbatim>\<open>https://stackName(name).hostedZone\<close> when \<^verbatim>\<open>hostedZone\<close> is a non-empty string;
  when \<^verbatim>\<open>hostedZone\<close> is unset or empty it is \<^verbatim>\<open>http://\<close> interpolated with the
  \<^verbatim>\<open>dnsName\<close> output of the one load balancer the constructor requests, which
  resolves to \<^verbatim>\<open>http://\<close> followed by that DNS name.
\<close>

theorem Service_url:
  assumes "name \<noteq> []"
  shows "\<exists>inst. Service ctx name a os = Inr inst
    \<and> url inst =
        (case sa_hostedZone a of
           None \<Rightarrow> Interpolate [Lit ''http://'', Output (LbLoadBalancer, name @ ''-app-lb'') ''dnsName'']
         | Some z \<Rightarrow>
             if z = [] then
               Interpolate [Lit ''http://'', Output (LbLoadBalancer, name @ ''-app-lb'') ''dnsName'']
             else Lit (''https://'' @ stackName ctx (sa_name a) @ ''.'' @ z))
    \<and> resolve outs exts zones (url inst) =
        (case sa_hostedZone a of
           None \<Rightarrow> ''http://'' @ outs (LbLoadBalancer, name @ ''-app-lb'') ''dnsName''
         | Some z \<Rightarrow>
             if z = [] then ''http://'' @ outs (LbLoadBalancer, name @ ''-app-lb'') ''dnsName''
             else ''https://'' @ stackName ctx (sa_name a) @ ''.'' @ z)
    \<and> map ref_of (of_type LbLoadBalancer (registered inst)) = [(LbLoadBalancer, name @ ''-app-lb'')]"
  using assms
  by (cases "sa_hostedZone a"; cases "sa_autoscaling a") (simp_all add: svc_eval)

theorem Service_url_witness:
  "''service'' \<noteq> []
    \<and> map_option url (instance_of (Service dev ''service''
      (nginx\<lparr>sa_hostedZone := Some ''labs.example.com''\<rparr>) None))
     = Some (Lit ''https://nginx-dev.labs.example.com'')
    \<and> map_option url (instance_of (Service dev ''service'' nginx None))
     = Some (Interpolate [Lit ''http://'', Output (LbLoadBalancer, ''service-app-lb'') ''dnsName''])
    \<and> map_option (resolve (\<lambda>r p. ''lb-1.elb.amazonaws.com'') (\<lambda>x. []) (\<lambda>z. []) \<circ> url)
         (instance_of (Service dev ''service'' nginx None))
     = Some ''http://lb-1.elb.amazonaws.com''"
  using
    Service_url [of "''service''" dev "nginx\<lparr>sa_hostedZone := Some ''labs.example.com''\<rparr>" None
      "\<lambda>r p. ''lb-1.elb.amazonaws.com''" "\<lambda>x. []" "\<lambda>z. []"]
    Service_url [of "''service''" dev nginx None
      "\<lambda>r p. ''lb-1.elb.amazonaws.com''" "\<lambda>x. []" "\<lambda>z. []"]
  by (auto simp add: nginx_def dev_def stackName_def)

text \<open>
  C3 as the spec states it fails where \<^verbatim>\<open>hostedZone\<close> is set to the empty string: the
  test \<^verbatim>\<open>hostedZone ? ... : ...\<close> is false there and the URL is the \<^verbatim>\<open>http://\<close>
  one, although \<^verbatim>\<open>hostedZone\<close> is present.
\<close>

theorem Service_url_empty_hostedZone_counterexample:
  "sa_hostedZone (nginx\<lparr>sa_hostedZone := Some []\<rparr>) = Some []
    \<and> map_option url (instance_of (Service dev ''service'' (nginx\<lparr>sa_hostedZone := Some []\<rparr>) None))
     = Some (Interpolate [Lit ''http://'', Output (LbLoadBalancer, ''service-app-lb'') ''dnsName''])"
  by (simp add: svc_eval nginx_def dev_def)

text \<open>
  C4, as amended. For every configuration with \<^verbatim>\<open>autoscaling\<close> present and every
  non-empty component name the constructor requests exactly one scaling target, with
  \<^verbatim>\<open>minCapacity = autoscaling.min\<close> and \<^verbatim>\<open>maxCapacity = autoscaling.max\<close>, and exactly
  one scaling policy, of type \<^verbatim>\<open>TargetTrackingScaling\<close>, whose \<^verbatim>\<open>targetValue\<close> is
  \<^verbatim>\<open>cpuAvgThreshold\<close> when that is given and truthy (neither zero nor \<^verbatim>\<open>NaN\<close>), and
  75 when it is omitted, zero or \<^verbatim>\<open>NaN\<close>. With \<^verbatim>\<open>autoscaling\<close> absent it requests
  no scaling target and no scaling policy.
\<close>

theorem Service_autoscaling:
  assumes "name \<noteq> []"
  shows "\<exists>inst. Service ctx name a os = Inr inst
    \<and> (case sa_autoscaling a of
          None \<Rightarrow>
            of_type AppautoscalingTarget (registered inst) = []
            \<and> of_type AppautoscalingPolicy (registered inst) = []
        | Some c \<Rightarrow>
            map minCapacity (pick scaling_target_cfg (registered inst)) = [as_min c]
            \<and> map maxCapacity (pick scaling_target_cfg (registered inst)) = [as_max c]
            \<and> map policyType (pick scaling_policy_cfg (registered inst)) = [''TargetTrackingScaling'']
            \<and> map (targetValue \<circ> targetTrackingScalingPolicyConfiguration)
                 (pick scaling_policy_cfg (registered inst))
               = [case as_cpuAvgThreshold c of
                    None \<Rightarrow> Num 75
                  | Some t \<Rightarrow> if t = Num 0 \<or> t = NaN then Num 75 else t])"
  using assms
  by (cases "sa_hostedZone a"; cases "sa_autoscaling a")
     (auto simp add: svc_eval split: option.splits)

theorem Service_autoscaling_witness:
  "''service'' \<noteq> []
    \<and> map minCapacity (pick scaling_target_cfg (requests (Service dev ''service''
      (nginx\<lparr>sa_autoscaling := Some
          \<lparr>as_min = Num 1, as_max = Num 5, as_cpuAvgThreshold = Some (Num 50)\<rparr>\<rparr>) None)))
     = [Num 1]
    \<and> map maxCapacity (pick scaling_target_cfg (requests (Service dev ''service''
      (nginx\<lparr>sa_autoscaling := Some
          \<lparr>as_min = Num 1, as_max = Num 5, as_cpuAvgThreshold = Some (Num 50)\<rparr>\<rparr>) None)))
     = [Num 5]
    \<and> map (targetValue \<circ> targetTrackingScalingPolicyConfiguration)
        (pick scaling_policy_cfg (requests (Service dev ''service''
      (nginx\<lparr>sa_autoscaling := Some
          \<lparr>as_min = Num 1, as_max = Num 5, as_cpuAvgThreshold = Some (Num 50)\<rparr>\<rparr>) None)))
     = [Num 50]
    \<and> instance_of (Service dev ''service'' nginx None) \<noteq> None
    \<and> of_type AppautoscalingTarget (requests (Service dev ''service'' nginx None)) = []
    \<and> of_type AppautoscalingPolicy (requests (Service dev ''service'' nginx None)) = []"
  using Service_autoscaling [of "''service''" dev
      "nginx\<lparr>sa_autoscaling := Some
          \<lparr>as_min = Num 1, as_max = Num 5, as_cpuAvgThreshold = Some (Num 50)\<rparr>\<rparr>" None]
    Service_autoscaling [of "''service''" dev nginx None]
  by (auto simp add: nginx_def)

text \<open>
  C4 as the spec states it fails where \<^verbatim>\<open>cpuAvgThreshold\<close> is given as 0, and where
  it is given as \<^verbatim>\<open>NaN\<close>: in \<^verbatim>\<open>cpuAvgThreshold || 75\<close> both are false, so the
  policy's \<^verbatim>\<open>targetValue\<close> is 75 and not the given value.
\<close>

theorem Service_autoscaling_falsy_threshold_counterexample:
  "map (targetValue \<circ> targetTrackingScalingPolicyConfiguration)
        (pick scaling_policy_cfg (requests (Service dev ''service''
      (nginx\<lparr>sa_autoscaling := Some
          \<lparr>as_min = Num 1, as_max = Num 5, as_cpuAvgThreshold = Some (Num 0)\<rparr>\<rparr>) None)))
     = [Num 75]
    \<and> map (targetValue \<circ> targetTrackingScalingPolicyConfiguration)
        (pick scaling_policy_cfg (requests (Service dev ''service''
      (nginx\<lparr>sa_autoscaling := Some
          \<lparr>as_min = Num 1, as_max = Num 5, as_cpuAvgThreshold = Some NaN\<rparr>\<rparr>) None)))
     = [Num 75]
    \<and> Num 75 \<noteq> Num 0 \<and> Num 75 \<noteq> NaN"
  by (simp add: svc_eval nginx_def dev_def)

text \<open>
  C5, as amended. For every configuration and every non-empty component name the
  constructor requests exactly one task definition; its \<^verbatim>\<open>cpu\<close> is \<^verbatim>\<open>"256"\<close> when
  \<^verbatim>\<open>cpu\<close> is omitted or empty and the configured string otherwise, and its
  \<^verbatim>\<open>memory\<close> is \<^verbatim>\<open>"512"\<close> when \<^verbatim>\<open>memory\<close> is omitted or empty and the
  configured string otherwise.
\<close>

theorem Service_cpu_memory:
  assumes "name \<noteq> []"
  shows "\<exists>inst. Service ctx name a os = Inr inst
    \<and> map cpu (pick task_definition_cfg (registered inst))
       = [case sa_cpu a of None \<Rightarrow> ''256'' | Some c \<Rightarrow> if c = [] then ''256'' else c]
    \<and> map memory (pick task_definition_cfg (registered inst))
       = [case sa_memory a of None \<Rightarrow> ''512'' | Some m \<Rightarrow> if m = [] then ''512'' else m]"
  using assms
  by (cases "sa_hostedZone a"; cases "sa_autoscaling a")
     (simp_all add: svc_eval split: option.splits)

theorem Service_cpu_memory_witness:
  "''service'' \<noteq> []
    \<and> map cpu (pick task_definition_cfg (requests (Service dev ''service'' nginx None))) = [''256'']
    \<and> map memory (pick task_definition_cfg (requests (Service dev ''service'' nginx None))) = [''512'']
    \<and> map cpu (pick task_definition_cfg (requests (Service dev ''service''
          (nginx\<lparr>sa_cpu := Some ''1024'', sa_memory := Some ''2048''\<rparr>) None))) = [''1024'']
    \<and> map memory (pick task_definition_cfg (requests (Service dev ''service''
          (nginx\<lparr>sa_cpu := Some ''1024'', sa_memory := Some ''2048''\<rparr>) None))) = [''2048'']"
  using Service_cpu_memory [of "''service''" dev nginx None]
    Service_cpu_memory [of "''service''" dev
      "nginx\<lparr>sa_cpu := Some ''1024'', sa_memory := Some ''2048''\<rparr>" None]
  by (auto simp add: nginx_def)

text \<open>
  C5 as the spec states it fails where \<^verbatim>\<open>cpu\<close> and \<^verbatim>\<open>memory\<close> are set to the empty
  string: in \<^verbatim>\<open>cpu || "256"\<close> and \<^verbatim>\<open>memory || "512"\<close> the empty string is false,
  so the task definition gets the defaults and not the values that were set.
\<close>

theorem Service_cpu_memory_empty_counterexample:
  "sa_cpu (nginx\<lparr>sa_cpu := Some [], sa_memory := Some []\<rparr>) = Some []
    \<and> sa_memory (nginx\<lparr>sa_cpu := Some [], sa_memory := Some []\<rparr>) = Some []
    \<and> map cpu (pick task_definition_cfg (requests (Service dev ''service''
          (nginx\<lparr>sa_cpu := Some [], sa_memory := Some []\<rparr>) None))) = [''256'']
    \<and> map memory (pick task_definition_cfg (requests (Service dev ''service''
          (nginx\<lparr>sa_cpu := Some [], sa_memory := Some []\<rparr>) None))) = [''512'']"
  by (simp add: svc_eval nginx_def dev_def)

text \<open>
  C6, as amended. For every configuration and every non-empty component name the
  constructor requests exactly one task definition; the array it serialises into
  \<^verbatim>\<open>containerDefinitions\<close> has exactly one element, and the \<^verbatim>\<open>portMappings\<close> of that
  element is an array of exactly one object, with \<^verbatim>\<open>protocol\<close> equal to \<^verbatim>\<open>tcp\<close>
  and with \<^verbatim>\<open>containerPort\<close> and \<^verbatim>\<open>hostPort\<close> equal to the configured port when
  that is a finite number, and both \<^verbatim>\<open>null\<close> when it is \<^verbatim>\<open>NaN\<close> or an infinity.
\<close>

theorem Service_port_mapping:
  assumes "name \<noteq> []"
  shows "\<exists>inst. Service ctx name a os = Inr inst
    \<and> map (map (member_of ''portMappings'') \<circ> elements \<circ> containerDefinitions)
        (pick task_definition_cfg (registered inst))
       = [[Some (JArray
            [JObject
              [(''containerPort'',
                  case sa_port a of
                    Num q \<Rightarrow> JNumber q | NaN \<Rightarrow> JNull | PosInfinity \<Rightarrow> JNull | NegInfinity \<Rightarrow> JNull),
               (''hostPort'',
                  case sa_port a of
                    Num q \<Rightarrow> JNumber q | NaN \<Rightarrow> JNull | PosInfinity \<Rightarrow> JNull | NegInfinity \<Rightarrow> JNull),
               (''protocol'', JString ''tcp'')]])]]"
  using assms
  by (cases "sa_hostedZone a"; cases "sa_autoscaling a")
     (simp_all add: svc_eval written_number_cases)

theorem Service_port_mapping_witness:
  "''service'' \<noteq> []
    \<and> map (map (member_of ''portMappings'') \<circ> elements \<circ> containerDefinitions)
        (pick task_definition_cfg
          (requests (Service dev ''service'' (nginx\<lparr>sa_port := Num 8080\<rparr>) None)))
       = [[Some (JArray
            [JObject
              [(''containerPort'', JNumber 8080),
               (''hostPort'', JNumber 8080),
               (''protocol'', JString ''tcp'')]])]]"
  using Service_port_mapping [of "''service''" dev "nginx\<lparr>sa_port := Num 8080\<rparr>" None]
  by (auto simp add: nginx_def)

text \<open>
  C6 as the spec states it fails where the configured port is \<^verbatim>\<open>NaN\<close>: the serialiser
  writes \<^verbatim>\<open>null\<close> for it, so the container port and the host port of the mapping in
  the task definition are \<^verbatim>\<open>null\<close>, not the configured port.
\<close>

theorem Service_port_mapping_NaN_counterexample:
  "sa_port (nginx\<lparr>sa_port := NaN\<rparr>) = NaN
    \<and> map (map (member_of ''portMappings'') \<circ> elements \<circ> containerDefinitions)
        (pick task_definition_cfg
          (requests (Service dev ''service'' (nginx\<lparr>sa_port := NaN\<rparr>) None)))
       = [[Some (JArray
            [JObject
              [(''containerPort'', JNull),
               (''hostPort'', JNull),
               (''protocol'', JString ''tcp'')]])]]"
  by (simp add: svc_eval nginx_def dev_def)

section \<open>The security group of the service\<close>

text \<open>
  C7. For every network id, service name, port and peer security-group id,
  \<^verbatim>\<open>createSecurityGroup\<close> requests a security group in that network whose ingress rules
  are exactly one rule, for protocol \<^verbatim>\<open>tcp\<close> with \<^verbatim>\<open>fromPort = toPort = port\<close> and
  the peer security group as its only source (no CIDR block), and whose egress rules are
  one rule for all protocols to \<^verbatim>\<open>0.0.0.0/0\<close>.
\<close>

theorem createSecurityGroup_rules:
  "map_option sg_vpcId (security_group_cfg (args (createSecurityGroup ctx n a os)))
      = Some (sga_vpcId a)
    \<and> map_option sg_ingress (security_group_cfg (args (createSecurityGroup ctx n a os)))
      = Some [\<lparr>protocol = ''tcp'', fromPort = sga_port a, toPort = sga_port a,
               securityGroups = Some [sga_lbSecurityGroupId a], cidrBlocks = None\<rparr>]
    \<and> map_option sg_egress (security_group_cfg (args (createSecurityGroup ctx n a os)))
      = Some (Some [\<lparr>protocol = ''all'', fromPort = Num 0, toPort = Num 0,
                     securityGroups = None, cidrBlocks = Some [''0.0.0.0/0'']\<rparr>])"
  by (simp add: createSecurityGroup_def)

theorem createSecurityGroup_rules_witness:
  "map_option sg_ingress (security_group_cfg (args (createSecurityGroup dev ''service''
      \<lparr>sga_serviceName = ''nginx-dev'', sga_port = Num 8080, sga_vpcId = External ''vpcId'',
       sga_lbSecurityGroupId = Output (Ec2SecurityGroup, ''service-alb-security-group'') ''id'',
       sga_tags = None\<rparr> None)))
      = Some [\<lparr>protocol = ''tcp'', fromPort = Num 8080, toPort = Num 8080,
               securityGroups = Some [Output (Ec2SecurityGroup, ''service-alb-security-group'') ''id''],
               cidrBlocks = None\<rparr>]"
  using createSecurityGroup_rules [of dev "''service''"
      "\<lparr>sga_serviceName = ''nginx-dev'', sga_port = Num 8080, sga_vpcId = External ''vpcId'',
        sga_lbSecurityGroupId = Output (Ec2SecurityGroup, ''service-alb-security-group'') ''id'',
        sga_tags = None\<rparr>" None]
  by simp

text \<open>
  C9. For every configuration and every non-empty component name the constructor
  requests two security groups: the load balancer's, whose external name is
  \<^verbatim>\<open>alb-serviceName-stack\<close>, and the service's, whose external name is
  \<^verbatim>\<open>ecs-serviceName-stack-stack\<close>. The constructor passes \<^verbatim>\<open>stackName(serviceName)\<close>
  to \<^verbatim>\<open>createSecurityGroup\<close>, which applies \<^verbatim>\<open>stackName\<close> again.
\<close>

theorem Service_security_group_name:
  assumes "name \<noteq> []"
  shows "\<exists>inst. Service ctx name a os = Inr inst
    \<and> map logical_name (of_type Ec2SecurityGroup (registered inst))
       = [name @ ''-alb-security-group'', name @ ''-security-group'']
    \<and> map sg_name (pick security_group_cfg (registered inst))
       = [''alb-'' @ sa_name a @ ''-'' @ stack ctx,
          ''ecs-'' @ sa_name a @ ''-'' @ stack ctx @ ''-'' @ stack ctx]
    \<and> ''ecs-'' @ sa_name a @ ''-'' @ stack ctx @ ''-'' @ stack ctx
       = ''ecs-'' @ stackName ctx (stackName ctx (sa_name a))"
  using assms
  by (cases "sa_hostedZone a"; cases "sa_autoscaling a")
     (simp_all add: svc_eval split: option.splits)

theorem Service_security_group_name_witness:
  "''service'' \<noteq> []
    \<and> map sg_name (pick security_group_cfg (requests (Service dev ''service'' nginx None)))
     = [''alb-nginx-dev'', ''ecs-nginx-dev-dev'']"
  using Service_security_group_name [of "''service''" dev nginx None]
  by (auto simp add: nginx_def dev_def)

section \<open>Validation and names\<close>

text \<open>
  C8, as amended. For every argument value \<^verbatim>\<open>validateServiceArgs\<close> returns without an
  error. For every non-empty component name the constructor then returns an object after
  at least twelve resource requests, the first of them the component and the cluster; for
  the empty component name it throws a \<^verbatim>\<open>ResourceError\<close>, whatever the arguments.
\<close>

theorem validateServiceArgs_never_rejects:
  "validateServiceArgs a = Inr ()
    \<and> (if name = [] then
         Service ctx name a os
           = Inl (ResourceError ''Missing resource name argument (for URN creation)'')
       else
         (\<exists>inst. Service ctx name a os = Inr inst
            \<and> 12 \<le> length (registered inst)
            \<and> map logical_name (take 2 (registered inst)) = [name, name @ ''-cluster'']))"
  by (cases "sa_hostedZone a"; cases "sa_autoscaling a")
     (simp_all add: svc_eval split: option.splits)

text \<open>
  The witness is a configuration with an empty service name, an empty image, a negative
  port and autoscaling bounds that are zero and negative.
\<close>

theorem validateServiceArgs_never_rejects_witness:
  "validateServiceArgs
      (nginx\<lparr>sa_name := [], sa_image := [], sa_port := Num (- 1),
             sa_autoscaling := Some
               \<lparr>as_min = Num 0, as_max = Num (- 3), as_cpuAvgThreshold = None\<rparr>\<rparr>)
     = Inr ()
    \<and> instance_of (Service dev ''service''
      (nginx\<lparr>sa_name := [], sa_image := [], sa_port := Num (- 1),
             sa_autoscaling := Some
               \<lparr>as_min = Num 0, as_max = Num (- 3), as_cpuAvgThreshold = None\<rparr>\<rparr>) None)
        \<noteq> None
    \<and> 12 \<le> length (requests (Service dev ''service''
      (nginx\<lparr>sa_name := [], sa_image := [], sa_port := Num (- 1),
             sa_autoscaling := Some
               \<lparr>as_min = Num 0, as_max = Num (- 3), as_cpuAvgThreshold = None\<rparr>\<rparr>) None))"
  using validateServiceArgs_never_rejects [of
      "nginx\<lparr>sa_name := [], sa_image := [], sa_port := Num (- 1),
             sa_autoscaling := Some
               \<lparr>as_min = Num 0, as_max = Num (- 3), as_cpuAvgThreshold = None\<rparr>\<rparr>"
      "''service''" dev None]
  by auto

text \<open>
  C8 as the spec states it fails where the component is given the empty name:
  \<^verbatim>\<open>super("Service", name)\<close> throws before the validator runs, and the constructor
  issues no request.
\<close>

theorem Service_empty_name_counterexample:
  "Service dev [] nginx None
     = Inl (ResourceError ''Missing resource name argument (for URN creation)'')
    \<and> instance_of (Service dev [] nginx None) = None
    \<and> requests (Service dev [] nginx None) = []"
  by (simp add: Service_def)

text \<open>
  Every request of the constructor but the listener's has a logical name that starts
  with the name of the component; the listener's is \<^verbatim>\<open>listener\<close>.
\<close>

lemma Service_logical_names:
  assumes "name \<noteq> []"
  shows "\<exists>inst. Service ctx name a os = Inr inst
    \<and> map logical_name (of_type LbListener (registered inst)) = [''listener'']
    \<and> (\<forall>r \<in> set (registered inst). rtype_of (args r) \<noteq> LbListener \<longrightarrow> prefix name (logical_name r))"
  using assms
  by (cases "sa_hostedZone a"; cases "sa_autoscaling a")
     (simp_all add: svc_eval split: option.splits)

text \<open>
  C10. For every configuration and every non-empty component name the listener is
  requested under the logical name \<^verbatim>\<open>listener\<close>, whatever the name of the component,
  and every other request has a logical name prefixed with the name of the component; so
  two \<^verbatim>\<open>Service\<close> objects, of any two non-empty names and any two configurations,
  request listeners of the same logical name.
\<close>

theorem listener_logical_name_fixed:
  assumes "n1 \<noteq> []" and "n2 \<noteq> []"
  shows "\<exists>i1 i2. Service ctx n1 a1 os1 = Inr i1 \<and> Service ctx n2 a2 os2 = Inr i2
    \<and> map logical_name (of_type LbListener (registered i1)) = [''listener'']
    \<and> map logical_name (of_type LbListener (registered i2)) = [''listener'']
    \<and> (\<forall>r \<in> set (registered i1). rtype_of (args r) \<noteq> LbListener \<longrightarrow> prefix n1 (logical_name r))
    \<and> (\<forall>r \<in> set (registered i2). rtype_of (args r) \<noteq> LbListener \<longrightarrow> prefix n2 (logical_name r))
    \<and> map ref_of (of_type LbListener (registered i1)) = map ref_of (of_type LbListener (registered i2))"
proof -
  obtain i1 where 1: "Service ctx n1 a1 os1 = Inr i1"
      "map logical_name (of_type LbListener (registered i1)) = [''listener'']"
      "\<forall>r \<in> set (registered i1). rtype_of (args r) \<noteq> LbListener \<longrightarrow> prefix n1 (logical_name r)"
    using Service_logical_names [OF assms(1), of ctx a1 os1] by auto
  obtain i2 where 2: "Service ctx n2 a2 os2 = Inr i2"
      "map logical_name (of_type LbListener (registered i2)) = [''listener'']"
      "\<forall>r \<in> set (registered i2). rtype_of (args r) \<noteq> LbListener \<longrightarrow> prefix n2 (logical_name r)"
    using Service_logical_names [OF assms(2), of ctx a2 os2] by auto
  have ref: "map ref_of (of_type LbListener rs) = map (Pair LbListener) (map logical_name (of_type LbListener rs))"
    for rs
    by (induction rs) (simp_all add: of_type_def ref_of_def)
  from 1 2 show ?thesis
    by (intro exI [of _ i1] exI [of _ i2]) (simp add: ref)
qed

theorem listener_logical_name_fixed_witness:
  "''web'' \<noteq> [] \<and> ''api'' \<noteq> []
    \<and> map logical_name (of_type LbListener (requests (Service dev ''web'' nginx None))) = [''listener'']
    \<and> map logical_name (of_type LbListener (requests (Service dev ''api''
          (nginx\<lparr>sa_name := ''api'', sa_hostedZone := Some ''labs.example.com''\<rparr>) None)))
       = [''listener'']
    \<and> list_all (prefix ''web'' \<circ> logical_name)
        (filter (\<lambda>r. rtype_of (args r) \<noteq> LbListener) (requests (Service dev ''web'' nginx None)))
    \<and> map logical_name (requests (Service dev ''web'' nginx None))
       = [''web'', ''web-cluster'', ''web-alb-security-group'', ''web-app-lb'',
          ''web-lb-target-group'', ''listener'', ''web-security-group'', ''web-task-exec-policy'',
          ''web-task-exec-role'', ''web-task-definitions'', ''web-alb-ecs-egress'',
          ''web-app-service'']"
proof -
  have names: "map logical_name (requests (Service dev ''web'' nginx None))
       = [''web'', ''web-cluster'', ''web-alb-security-group'', ''web-app-lb'',
          ''web-lb-target-group'', ''listener'', ''web-security-group'', ''web-task-exec-policy'',
          ''web-task-exec-role'', ''web-task-definitions'', ''web-alb-ecs-egress'',
          ''web-app-service'']"
    by (simp add: svc_eval nginx_def dev_def)
  show ?thesis
    using listener_logical_name_fixed [of "''web''" "''api''" dev nginx None
        "nginx\<lparr>sa_name := ''api'', sa_hostedZone := Some ''labs.example.com''\<rparr>" None] names
    by (auto simp add: list_all_iff)
qed

end
